theory Spec2Isabelle
  imports Complex_Main "HOL-Library.Word"
begin

section \<open>Matching engine: data model\<close>

text \<open>
  The matching logic document gives the engine as Python. Floats are modelled as
  exact reals, Python lists as lists, dictionaries as maps, and every exception the
  Python can raise as a value of \<open>error\<close>.
\<close>

datatype error = KeyError | ZeroDivisionError | ValueError | StatisticsError | NameError

record clinician =
  clinician_id :: string
  license_states :: "string list"
  appointment_types :: "string list"
  specialties :: "string list"
  immediate_availability :: bool
  accepting_new_patients :: bool
  availability_score :: real
  current_patients :: nat
  max_capacity :: nat

text \<open>
  The stated preferences of a user: the object the search form submits and the
  fields the scoring functions read from \<open>user\<close>.
\<close>

record preferences =
  state :: string
  appointment_type :: string
  insurance_provider :: string
  language :: string
  gender_preference :: string
  clinical_needs :: "string list"
  preferred_time_slots :: "string list"
  urgency_level :: string

type_synonym user = preferences

subsection \<open>Weight configurations\<close>

text \<open>One value per scoring factor: a weight profile, or the five factor scores.\<close>

record factor_values =
  f_availability :: real
  f_insurance :: real
  f_specialties :: real
  f_load_balance :: real
  f_preferences :: real

definition WEIGHTS_URGENT :: factor_values where
  "WEIGHTS_URGENT = \<lparr>f_availability = 0.40, f_insurance = 0.20, f_specialties = 0.20,
     f_load_balance = 0.10, f_preferences = 0.10\<rparr>"

definition WEIGHTS_FLEXIBLE :: factor_values where
  "WEIGHTS_FLEXIBLE = \<lparr>f_availability = 0.25, f_insurance = 0.25, f_specialties = 0.25,
     f_load_balance = 0.15, f_preferences = 0.10\<rparr>"

definition weight_total :: "factor_values \<Rightarrow> real" where
  "weight_total w = f_availability w + f_insurance w + f_specialties w
     + f_load_balance w + f_preferences w"

subsection \<open>Hard filters\<close>

definition filter_by_state :: "clinician list \<Rightarrow> string \<Rightarrow> clinician list" where
  "filter_by_state clinicians user_state =
     [c \<leftarrow> clinicians. user_state \<in> set (license_states c)]"

definition filter_by_appointment_type :: "clinician list \<Rightarrow> string \<Rightarrow> clinician list" where
  "filter_by_appointment_type clinicians ty =
     [c \<leftarrow> clinicians. ty \<in> set (appointment_types c)]"

definition filter_accepting_patients :: "clinician list \<Rightarrow> clinician list" where
  "filter_accepting_patients clinicians = [c \<leftarrow> clinicians. accepting_new_patients c]"

text \<open>
  Modelled from the spec: the steps of \<open>apply_filters_optimized\<close> after the state
  step, which the source leaves out. The appointment-type filter and then the
  accepting-patients filter run on the previous output, and the stage returns the
  current list as soon as it holds fewer than \<open>MIN_RESULTS\<close> clinicians.
\<close>

definition remaining_filters :: "nat \<Rightarrow> clinician list \<Rightarrow> preferences \<Rightarrow> clinician list" where
  "remaining_filters MIN_RESULTS clinicians filters =
     (let by_type = filter_by_appointment_type clinicians (appointment_type filters)
      in if length by_type < MIN_RESULTS then by_type
         else filter_accepting_patients by_type)"

text \<open>
  \<open>apply_filters_optimized\<close> as the source has it: the state filter runs when a state
  is given, and a list shorter than \<open>MIN_RESULTS\<close> is returned at once. The constant
  \<open>MIN_RESULTS\<close> is not in the source and is a parameter.
\<close>

definition apply_filters_optimized :: "nat \<Rightarrow> clinician list \<Rightarrow> preferences \<Rightarrow> clinician list" where
  "apply_filters_optimized MIN_RESULTS clinicians filters =
     (if state filters \<noteq> []
      then (let by_state = filter_by_state clinicians (state filters)
            in if length by_state < MIN_RESULTS then by_state
               else remaining_filters MIN_RESULTS by_state filters)
      else remaining_filters MIN_RESULTS clinicians filters)"

text \<open>What the hard filters demand of one clinician.\<close>

definition passes_hard_filters :: "preferences \<Rightarrow> clinician \<Rightarrow> bool" where
  "passes_hard_filters filters c =
     (state filters \<in> set (license_states c)
      \<and> appointment_type filters \<in> set (appointment_types c)
      \<and> accepting_new_patients c)"

subsection \<open>Scoring components\<close>

definition py_div :: "real \<Rightarrow> real \<Rightarrow> error + real" where
  "py_div a b = (if b = 0 then Inl ZeroDivisionError else Inr (a / b))"

definition score_availability :: "clinician \<Rightarrow> user \<Rightarrow> real" where
  "score_availability c u =
     (if urgency_level u = ''immediate''
      then (if immediate_availability c then 1.0 else 0.2)
      else (let base = availability_score c
            in if accepting_new_patients c then min (base + 0.2) 1.0 else base))"

text \<open>
  Modelled from the spec: \<open>has_insurance\<close> is not in the source; a user has insurance
  when a provider is stated, that is when the provider string is not empty.
\<close>

definition has_insurance :: "user \<Rightarrow> bool" where
  "has_insurance u = (insurance_provider u \<noteq> [])"

text \<open>
  \<open>deterministic_hash\<close> reads the first eight hexadecimal digits of the MD5 digest
  of the seed as a number. MD5 itself belongs to the Python library and is a
  parameter: a function from strings to 128-bit digests. \<open>hexdigest\<close> prints the
  digest, most significant nibble first; \<open>int16\<close> is \<open>int(s, 16)\<close> on plain digit
  strings, with the ValueError of an empty string or a character that is no digit.
\<close>

definition hex_char :: "nat \<Rightarrow> char" where
  "hex_char n = (if n < 10 then char_of (48 + n) else char_of (87 + n))"

definition hexdigest :: "128 word \<Rightarrow> string" where
  "hexdigest d =
     map (\<lambda>i. hex_char (unat (take_bit 4 (drop_bit (4 * (31 - i)) d)))) [0..<32]"

definition hex_val :: "char \<Rightarrow> nat option" where
  "hex_val c =
     (let n = (of_char c :: nat)
      in if 48 \<le> n \<and> n \<le> 57 then Some (n - 48)
         else if 97 \<le> n \<and> n \<le> 102 then Some (n - 87)
         else if 65 \<le> n \<and> n \<le> 70 then Some (n - 55)
         else None)"

fun int16_digits :: "nat \<Rightarrow> string \<Rightarrow> error + nat" where
  "int16_digits acc [] = Inr acc"
| "int16_digits acc (c # cs) =
     (case hex_val c of
        None \<Rightarrow> Inl ValueError
      | Some d \<Rightarrow> int16_digits (16 * acc + d) cs)"

definition int16 :: "string \<Rightarrow> error + nat" where
  "int16 s = (if s = [] then Inl ValueError else int16_digits 0 s)"

definition deterministic_hash :: "(string \<Rightarrow> 128 word) \<Rightarrow> string \<Rightarrow> error + nat" where
  "deterministic_hash md5 seed_string = int16 (take 8 (hexdigest (md5 seed_string)))"

definition base_probability :: "string \<Rightarrow> nat" where
  "base_probability insurance =
     (if insurance \<in> set [''Aetna'', ''Blue Cross''] then 85 else 70)"

definition simulate_insurance_acceptance ::
  "(string \<Rightarrow> 128 word) \<Rightarrow> string \<Rightarrow> string \<Rightarrow> error + bool" where
  "simulate_insurance_acceptance md5 cid insurance =
     (case deterministic_hash md5 (cid @ insurance) of
        Inl e \<Rightarrow> Inl e
      | Inr hash_val \<Rightarrow> Inr (hash_val mod 100 < base_probability insurance))"

text \<open>
  \<open>score_insurance\<close> as the source has it. For a user with insurance the result of
  \<open>calculate_insurance_match\<close> is assigned to \<open>acceptance_probability\<close>, and the
  return statement then reads \<open>accepted\<close>, a name that no statement binds: the call
  raises NameError. \<open>calculate_insurance_match\<close> is not in the source and is a
  parameter.
\<close>

definition score_insurance ::
  "(string \<Rightarrow> string \<Rightarrow> error + 'p) \<Rightarrow> clinician \<Rightarrow> user \<Rightarrow> error + real" where
  "score_insurance calculate_insurance_match c u =
     (if \<not> has_insurance u then Inr 0.5
      else (case calculate_insurance_match (clinician_id c) (insurance_provider u) of
              Inl e \<Rightarrow> Inl e
            | Inr acceptance_probability \<Rightarrow> Inl NameError))"

definition score_specialties_basic :: "clinician \<Rightarrow> user \<Rightarrow> error + real" where
  "score_specialties_basic c u =
     (let user_needs = set (clinical_needs u);
          clinician_specs = set (specialties c)
      in if user_needs = {} then Inr 0.5
         else (let overlap = user_needs \<inter> clinician_specs
               in py_div (real (card overlap)) (real (card user_needs))))"

definition load_ratio :: "clinician \<Rightarrow> error + real" where
  "load_ratio c = py_div (real (current_patients c)) (real (max_capacity c))"

definition score_load_balance :: "clinician \<Rightarrow> error + real" where
  "score_load_balance c =
     (case load_ratio c of
        Inl e \<Rightarrow> Inl e
      | Inr r \<Rightarrow> Inr (if r < 0.5 then 1.0 else if r < 0.7 then 0.8
                       else if r < 0.85 then 0.6 else 0.3))"

text \<open>The scoring formula: the weighted sum of the five factor scores.\<close>

definition calculate_content_score :: "factor_values \<Rightarrow> factor_values \<Rightarrow> real" where
  "calculate_content_score w f =
     f_availability w * f_availability f + f_insurance w * f_insurance f
     + f_specialties w * f_specialties f
     + f_load_balance w * f_load_balance f
     + f_preferences w * f_preferences f"

text \<open>Each of the five factor scores lies between 0 and 1.\<close>

definition unit_factors :: "factor_values \<Rightarrow> bool" where
  "unit_factors f =
     (0 \<le> f_availability f \<and> f_availability f \<le> 1
      \<and> 0 \<le> f_insurance f \<and> f_insurance f \<le> 1
      \<and> 0 \<le> f_specialties f \<and> f_specialties f \<le> 1
      \<and> 0 \<le> f_load_balance f \<and> f_load_balance f \<le> 1
      \<and> 0 \<le> f_preferences f \<and> f_preferences f \<le> 1)"

subsection \<open>Adjustment factors\<close>


definition overload_penalty :: "real \<Rightarrow> real \<Rightarrow> real" where
  "overload_penalty ratio score = (if ratio > 0.85 then score * 0.7 else score)"



text \<open>
  Modelled from the spec: the final match score. The source gives the adjustment
  steps one by one and has no function that chains them or returns the final score;
  the chain, its order and the clamps are the specification's. The new-clinician
  boost, the overload penalty and the cluster boost apply to the weighted sum and
  the result is clamped to [0,1]; the collaborative blend, where a prediction
  exists, is clamped to [0,1]; the diversity factor, where one applies, multiplies
  the score, and the match score is again kept in [0,1] by the final clamp.
\<close>

definition clamp01 :: "real \<Rightarrow> real" where
  "clamp01 x = max 0 (min 1 x)"


subsection \<open>Diversity re-rank\<close>






subsection \<open>Collaborative filtering\<close>

definition ACTION_SCORES :: "(string \<times> real) list" where
  "ACTION_SCORES =
     [(''booked'', 1.0), (''contacted'', 0.7), (''clicked'', 0.4),
      (''viewed'', 0.2), (''ignored'', 0.0), (''rejected'', - 0.5)]"

record interaction =
  interaction_user_id :: string
  interaction_clinician_id :: string
  interaction_action :: string

definition lookup_or_raise :: "('k \<rightharpoonup> 'v) \<Rightarrow> 'k \<Rightarrow> error + 'v" where
  "lookup_or_raise d k = (case d k of None \<Rightarrow> Inl KeyError | Some v \<Rightarrow> Inr v)"

text \<open>
  Modelled from the spec: \<open>interaction_to_score\<close> is not in the source; it reads the
  score of the interaction's action from \<open>ACTION_SCORES\<close>.
\<close>

definition interaction_to_score :: "interaction \<Rightarrow> error + real" where
  "interaction_to_score i = lookup_or_raise (map_of ACTION_SCORES) (interaction_action i)"

text \<open>
  The matrix is a \<open>defaultdict(dict)\<close>: reading a user that is not there gives an
  empty dictionary, and the dictionary of one user is a plain one, where reading a
  clinician that is not there raises KeyError.
\<close>

type_synonym matrix = "string \<Rightarrow> (string \<rightharpoonup> real)"

text \<open>
  One turn of the loop of \<open>build_user_item_matrix\<close>, with \<open>user_id\<close> and
  \<open>clinician_id\<close> those of the interaction: the right-hand side reads
  \<open>matrix[user_id][clinician_id]\<close> before the assignment stores the maximum.
\<close>

definition matrix_step :: "matrix \<Rightarrow> interaction \<Rightarrow> error + matrix" where
  "matrix_step m i =
     (case interaction_to_score i of
        Inl e \<Rightarrow> Inl e
      | Inr score \<Rightarrow>
          (let uid = interaction_user_id i; cid = interaction_clinician_id i
           in case lookup_or_raise (m uid) cid of
                Inl e \<Rightarrow> Inl e
              | Inr current \<Rightarrow> Inr (m(uid := (m uid)(cid \<mapsto> max current score)))))"

fun matrix_loop :: "matrix \<Rightarrow> interaction list \<Rightarrow> error + matrix" where
  "matrix_loop m [] = Inr m"
| "matrix_loop m (i # rest) =
     (case matrix_step m i of Inl e \<Rightarrow> Inl e | Inr m' \<Rightarrow> matrix_loop m' rest)"

definition build_user_item_matrix :: "interaction list \<Rightarrow> error + matrix" where
  "build_user_item_matrix all_interactions = matrix_loop (\<lambda>_. Map.empty) all_interactions"

definition mean :: "real list \<Rightarrow> error + real" where
  "mean xs = (if xs = [] then Inl StatisticsError else py_div (sum_list xs) (real (length xs)))"

text \<open>The inner loop of \<open>predict_scores\<close>: the entries of the similar users, in order.\<close>

fun collect_scores :: "matrix \<Rightarrow> string \<Rightarrow> string list \<Rightarrow> real list \<Rightarrow> real list" where
  "collect_scores user_item_matrix cid [] scores = scores"
| "collect_scores user_item_matrix cid (similar_user # rest) scores =
     collect_scores user_item_matrix cid rest
       (case user_item_matrix similar_user cid of
          None \<Rightarrow> scores
        | Some v \<Rightarrow> scores @ [v])"

fun predict_loop ::
  "matrix \<Rightarrow> string list \<Rightarrow> string list \<Rightarrow> (string \<rightharpoonup> real) \<Rightarrow> error + (string \<rightharpoonup> real)" where
  "predict_loop user_item_matrix similar_users [] predictions = Inr predictions"
| "predict_loop user_item_matrix similar_users (cid # rest) predictions =
     (let scores = collect_scores user_item_matrix cid similar_users []
      in case (if scores \<noteq> [] then mean scores else Inr 0.5) of
           Inl e \<Rightarrow> Inl e
         | Inr p \<Rightarrow> predict_loop user_item_matrix similar_users rest (predictions(cid \<mapsto> p)))"

text \<open>\<open>find_similar_users\<close> is not in the source and is a parameter.\<close>

definition predict_scores ::
  "('u \<Rightarrow> string list) \<Rightarrow> matrix \<Rightarrow> 'u \<Rightarrow> string list \<Rightarrow> error + (string \<rightharpoonup> real)" where
  "predict_scores find_similar_users user_item_matrix u candidates =
     (let similar_users = find_similar_users u
      in predict_loop user_item_matrix similar_users candidates Map.empty)"

text \<open>The entries that the similar users hold for one clinician.\<close>

definition entries_for :: "matrix \<Rightarrow> string list \<Rightarrow> string \<Rightarrow> real list" where
  "entries_for user_item_matrix similar_users cid =
     List.map_filter (\<lambda>su. user_item_matrix su cid) similar_users"

text \<open>
  The prediction in the words of the specification: the mean of the entries, or the
  neutral 0.5 when there is none. The loop above is compared with it.
\<close>

definition prediction_for :: "matrix \<Rightarrow> string list \<Rightarrow> string \<Rightarrow> real" where
  "prediction_for m sims cid =
     (if entries_for m sims cid = [] then 0.5
      else sum_list (entries_for m sims cid) / real (length (entries_for m sims cid)))"

section \<open>Frontend: the search wizard\<close>

definition INSURANCE_PROVIDERS :: "string list" where
  "INSURANCE_PROVIDERS =
     [''BlueCross BlueShield'', ''UnitedHealth'', ''Aetna'', ''Cigna'', ''Kaiser'',
      ''Humana'', ''Anthem'', ''Centene'', ''Molina'', ''WellCare'', ''Private Pay'']"

text \<open>\<open>validateStep\<close>: the three required steps each demand a non-empty field.\<close>

definition validateStep :: "preferences \<Rightarrow> nat \<Rightarrow> bool" where
  "validateStep formData stepIndex =
     (if stepIndex = 0 then state formData \<noteq> []
      else if stepIndex = 1 then appointment_type formData \<noteq> []
      else if stepIndex = 2 then insurance_provider formData \<noteq> []
      else True)"

text \<open>The loop of \<open>handleSubmit\<close> over the required steps stops at the first invalid one.\<close>

fun first_invalid_step :: "preferences \<Rightarrow> nat list \<Rightarrow> nat option" where
  "first_invalid_step formData [] = None"
| "first_invalid_step formData (i # rest) =
     (if \<not> validateStep formData i then Some i else first_invalid_step formData rest)"

datatype submit_outcome = StayOnStep nat | OnSearch preferences

definition handleSubmit :: "preferences \<Rightarrow> submit_outcome" where
  "handleSubmit formData =
     (case first_invalid_step formData [0, 1, 2] of
        Some i \<Rightarrow> StayOnStep i
      | None \<Rightarrow>
          OnSearch (formData
            \<lparr>clinical_needs :=
               (if appointment_type formData = ''medication'' then []
                else clinical_needs formData),
             language := (if language formData = ''English'' then [] else language formData)\<rparr>))"

text \<open>
  \<open>handleSearch\<close> of the application cleans the needs once more, asks for nine
  results and picks the endpoint from the signed-in user, given as its id and
  registration type; the API functions post the preferences without the limit.
\<close>

record match_request =
  endpoint :: string
  limit :: nat
  request_user_id :: "string option"
  request_preferences :: preferences

definition handleSearch :: "(string \<times> string) option \<Rightarrow> preferences \<Rightarrow> match_request" where
  "handleSearch signed_in formData =
     (let cleanedPreferences = formData
            \<lparr>clinical_needs :=
               (if appointment_type formData = ''medication'' then []
                else clinical_needs formData)\<rparr>
      in case signed_in of
           None \<Rightarrow> \<lparr>endpoint = ''/match'', limit = 9, request_user_id = None,
                      request_preferences = cleanedPreferences\<rparr>
         | Some (uid, registration_type) \<Rightarrow>
             if registration_type = ''complete''
             then \<lparr>endpoint = ''/match/complete'', limit = 9, request_user_id = Some uid,
                    request_preferences = cleanedPreferences\<rparr>
             else if registration_type = ''basic''
             then \<lparr>endpoint = ''/match/basic'', limit = 9, request_user_id = Some uid,
                    request_preferences = cleanedPreferences\<rparr>
             else \<lparr>endpoint = ''/match'', limit = 9, request_user_id = None,
                    request_preferences = cleanedPreferences\<rparr>)"

section \<open>Verified properties\<close>

subsection \<open>Scoring never divides by zero\<close>

lemma py_div_ok: "b \<noteq> 0 \<Longrightarrow> py_div a b = Inr (a / b)"
  by (simp add: py_div_def)

lemma specialties_basic_empty:
  "clinical_needs u = [] \<Longrightarrow> score_specialties_basic c u = Inr 0.5"
  by (simp add: score_specialties_basic_def)

text \<open>
  C7: the basic specialties score is the share of the user's needs that the
  clinician covers when the user states needs, and exactly 0.5 when the user states
  none; the division is guarded, so the function never raises ZeroDivisionError.
\<close>

theorem specialties_basic_total:
  "score_specialties_basic c u =
     Inr (if set (clinical_needs u) = {} then 0.5
          else real (card (set (clinical_needs u) \<inter> set (specialties c)))
               / real (card (set (clinical_needs u))))
   \<and> score_specialties_basic c u \<noteq> Inl ZeroDivisionError"
  by (simp add: score_specialties_basic_def Let_def py_div_def)

subsection \<open>The deterministic hash\<close>

lemma hex_val_hex_char: "n < 16 \<Longrightarrow> hex_val (hex_char n) = Some n"
  by (simp add: hex_val_def hex_char_def)

lemma int16_digits_hex:
  "\<forall>c\<in>set s. hex_val c \<noteq> None \<Longrightarrow> \<exists>n. int16_digits acc s = Inr n"
  by (induction s arbitrary: acc) auto

lemma length_hexdigest: "length (hexdigest d) = 32"
  by (simp add: hexdigest_def)

lemma hexdigest_digits: "c \<in> set (hexdigest d) \<Longrightarrow> hex_val c \<noteq> None"
proof -
  assume "c \<in> set (hexdigest d)"
  then obtain i where "c = hex_char (unat (take_bit 4 (drop_bit (4 * (31 - i)) d)))"
    by (auto simp: hexdigest_def)
  moreover have "unat (take_bit 4 (drop_bit (4 * (31 - i)) d)) < 16"
    using take_bit_nat_less_exp [of 4 "unat (drop_bit (4 * (31 - i)) d)"]
    by (simp add: unsigned_take_bit_eq)
  ultimately show ?thesis by (simp add: hex_val_hex_char)
qed

text \<open>The digest always prints as digits, so reading it back never raises.\<close>

lemma deterministic_hash_total: "\<exists>h. deterministic_hash md5 s = Inr h"
proof -
  have "take 8 (hexdigest (md5 s)) \<noteq> []"
    using length_hexdigest [of "md5 s"] by auto
  moreover have "\<forall>c\<in>set (take 8 (hexdigest (md5 s))). hex_val c \<noteq> None"
    using hexdigest_digits by (meson in_set_takeD)
  ultimately show ?thesis
    using int16_digits_hex by (simp add: deterministic_hash_def int16_def)
qed

text \<open>
  C8: in both weight profiles, urgent and flexible, the five factor weights sum to
  exactly 1, hence to 1 within 1e-9.
\<close>

theorem weights_sum_to_one:
  "weight_total WEIGHTS_URGENT = 1 \<and> weight_total WEIGHTS_FLEXIBLE = 1
   \<and> \<bar>weight_total WEIGHTS_URGENT - 1\<bar> \<le> 1 / 10 ^ 9
   \<and> \<bar>weight_total WEIGHTS_FLEXIBLE - 1\<bar> \<le> 1 / 10 ^ 9"
  by (simp add: weight_total_def WEIGHTS_URGENT_def WEIGHTS_FLEXIBLE_def)

subsection \<open>Insurance score\<close>

text \<open>
  The acceptance simulation decides as described: the hash of clinician id and
  provider, modulo 100, against 85 for Aetna and Blue Cross and 70 otherwise.
\<close>

lemma simulate_insurance_acceptance_decision:
  "\<exists>h. deterministic_hash md5 (cid @ insurance) = Inr h
     \<and> simulate_insurance_acceptance md5 cid insurance =
         Inr (h mod 100 < (if insurance = ''Aetna'' \<or> insurance = ''Blue Cross''
                            then 85 else 70))"
proof -
  obtain h where "deterministic_hash md5 (cid @ insurance) = Inr h"
    using deterministic_hash_total by blast
  then show ?thesis
    by (simp add: simulate_insurance_acceptance_def base_probability_def)
qed

text \<open>
  With the acceptance simulation in the place of \<open>calculate_insurance_match\<close>, every
  user who states a provider gets NameError in the place of a score.
\<close>

lemma score_insurance_insured_raises:
  "score_insurance (simulate_insurance_acceptance md5) c u =
     (if insurance_provider u = [] then Inr 0.5 else Inl NameError)"
proof -
  obtain b where "simulate_insurance_acceptance md5 (clinician_id c) (insurance_provider u) = Inr b"
    using simulate_insurance_acceptance_decision by blast
  then show ?thesis
    by (simp add: score_insurance_def has_insurance_def)
qed

text \<open>
  C4: \<open>score_insurance\<close> for clinician clin_001 and a user insured with Aetna raises
  NameError, whatever the hash function is: the acceptance decision is computed
  and dropped, and the score is read from the unbound name \<open>accepted\<close>. The claim
  gives this call the score 1.0 or 0.0.
\<close>

theorem insured_score_raises_name_error:
  "score_insurance (simulate_insurance_acceptance md5)
     \<lparr>clinician_id = ''clin_001'', license_states = [''CA''],
      appointment_types = [''therapy''], specialties = [''anxiety''],
      immediate_availability = True, accepting_new_patients = True,
      availability_score = 0.6, current_patients = 3, max_capacity = 10\<rparr>
     \<lparr>state = ''CA'', appointment_type = ''therapy'', insurance_provider = ''Aetna'',
      language = [], gender_preference = [], clinical_needs = [],
      preferred_time_slots = [], urgency_level = ''flexible''\<rparr>
   = Inl NameError"
  by (simp add: score_insurance_insured_raises)

subsection \<open>The providers the search form offers\<close>

text \<open>
  C10: for every provider of the form's list the acceptance probability is 70 unless
  the provider is Aetna. The list spells its entry BlueCross BlueShield, and the
  string Blue Cross, which alone besides Aetna gets 85, is not in the list.
\<close>

theorem frontend_provider_probability:
  "(\<forall>p \<in> set INSURANCE_PROVIDERS.
      base_probability p = (if p = ''Aetna'' then 85 else 70)
      \<and> simulate_insurance_acceptance md5 cid p =
          (case deterministic_hash md5 (cid @ p) of
             Inl e \<Rightarrow> Inl e
           | Inr h \<Rightarrow> Inr (h mod 100 < (if p = ''Aetna'' then 85 else 70))))
   \<and> ''Blue Cross'' \<notin> set INSURANCE_PROVIDERS
   \<and> ''BlueCross BlueShield'' \<in> set INSURANCE_PROVIDERS
   \<and> base_probability ''BlueCross BlueShield'' = 70
   \<and> base_probability ''Blue Cross'' = 85"
proof -
  have base: "\<forall>p \<in> set INSURANCE_PROVIDERS. base_probability p = (if p = ''Aetna'' then 85 else 70)"
    by (simp add: INSURANCE_PROVIDERS_def base_probability_def)
  have sim: "\<forall>p \<in> set INSURANCE_PROVIDERS.
      simulate_insurance_acceptance md5 cid p =
          (case deterministic_hash md5 (cid @ p) of
             Inl e \<Rightarrow> Inl e
           | Inr h \<Rightarrow> Inr (h mod 100 < (if p = ''Aetna'' then 85 else 70)))"
  proof
    fix p assume "p \<in> set INSURANCE_PROVIDERS"
    with base have "base_probability p = (if p = ''Aetna'' then 85 else 70)" by blast
    then show "simulate_insurance_acceptance md5 cid p =
          (case deterministic_hash md5 (cid @ p) of
             Inl e \<Rightarrow> Inl e
           | Inr h \<Rightarrow> Inr (h mod 100 < (if p = ''Aetna'' then 85 else 70)))"
      by (cases "p = ''Aetna''") (simp_all add: simulate_insurance_acceptance_def split: sum.splits)
  qed
  have l: "''Blue Cross'' \<notin> set INSURANCE_PROVIDERS"
    "''BlueCross BlueShield'' \<in> set INSURANCE_PROVIDERS"
    by (simp_all add: INSURANCE_PROVIDERS_def)
  have v: "base_probability ''BlueCross BlueShield'' = 70"
    "base_probability ''Blue Cross'' = 85"
    by (simp_all add: base_probability_def)
  from base sim l v show ?thesis by blast
qed

text \<open>Cigna and Aetna are both offered; the first gets 70, the second 85.\<close>

theorem frontend_provider_probability_witness:
  "''Cigna'' \<in> set INSURANCE_PROVIDERS \<and> base_probability ''Cigna'' = 70
   \<and> ''Aetna'' \<in> set INSURANCE_PROVIDERS \<and> base_probability ''Aetna'' = 85"
proof -
  have a: "''Cigna'' \<in> set INSURANCE_PROVIDERS" and b: "''Aetna'' \<in> set INSURANCE_PROVIDERS"
    by (simp_all add: INSURANCE_PROVIDERS_def)
  from frontend_provider_probability [of "\<lambda>_. 0" "''c''"] a b show ?thesis
    by auto
qed

subsection \<open>Medication searches\<close>

lemma handleSearch_needs:
  "clinical_needs (request_preferences (handleSearch signed_in d)) =
     (if appointment_type d = ''medication'' then [] else clinical_needs d)"
  by (simp add: handleSearch_def Let_def split: option.splits prod.splits)

lemma handleSearch_type:
  "appointment_type (request_preferences (handleSearch signed_in d)) = appointment_type d"
  by (simp add: handleSearch_def Let_def split: option.splits prod.splits)

text \<open>
  C9: when the wizard submits a form whose appointment type is medication, the
  preferences handed to the search carry no clinical needs, the request built from
  them carries none either, and the basic specialties score of every clinician for
  that request is the fallback 0.5.
\<close>

theorem medication_search_has_no_needs:
  assumes "appointment_type formData = ''medication''"
    and "handleSubmit formData = OnSearch cleanedData"
  shows "clinical_needs cleanedData = []
    \<and> appointment_type (request_preferences (handleSearch signed_in cleanedData)) = ''medication''
    \<and> clinical_needs (request_preferences (handleSearch signed_in cleanedData)) = []
    \<and> score_specialties_basic c (request_preferences (handleSearch signed_in cleanedData)) = Inr 0.5"
proof -
  from assms have d: "clinical_needs cleanedData = []" "appointment_type cleanedData = ''medication''"
    by (auto simp: handleSubmit_def split: option.splits)
  then show ?thesis
    by (simp add: handleSearch_needs handleSearch_type specialties_basic_empty)
qed

text \<open>
  A medication form with two needs still ticked passes validation, and the search it
  starts carries no needs.
\<close>

theorem medication_search_has_no_needs_witness:
  "(let formData = \<lparr>state = ''CA'', appointment_type = ''medication'',
              insurance_provider = ''Cigna'', language = ''English'', gender_preference = [],
              clinical_needs = [''Anxiety'', ''Trauma''], preferred_time_slots = [],
              urgency_level = ''flexible''\<rparr>;
        cleanedData = formData\<lparr>clinical_needs := [], language := []\<rparr>;
        c = \<lparr>clinician_id = ''clin_001'', license_states = [''CA''],
              appointment_types = [''medication''], specialties = [''Anxiety''],
              immediate_availability = True, accepting_new_patients = True,
              availability_score = 0.6, current_patients = 3, max_capacity = 10\<rparr>
    in appointment_type formData = ''medication''
       \<and> handleSubmit formData = OnSearch cleanedData
       \<and> clinical_needs (request_preferences (handleSearch None cleanedData)) = []
       \<and> score_specialties_basic c (request_preferences (handleSearch None cleanedData))
           = Inr 0.5)"
proof -
  let ?fd = "\<lparr>state = ''CA'', appointment_type = ''medication'',
              insurance_provider = ''Cigna'', language = ''English'', gender_preference = [],
              clinical_needs = [''Anxiety'', ''Trauma''], preferred_time_slots = [],
              urgency_level = ''flexible''\<rparr>"
  let ?cd = "?fd\<lparr>clinical_needs := [], language := []\<rparr>"
  have t: "appointment_type ?fd = ''medication''" by simp
  have h: "handleSubmit ?fd = OnSearch ?cd"
    by (simp add: handleSubmit_def validateStep_def)
  from medication_search_has_no_needs [OF t h, of None] t h show ?thesis
    by (simp add: Let_def)
qed

subsection \<open>Hard filters\<close>





text \<open>
  With a threshold of at most one the early return only hands back an empty list,
  and every clinician returned passes all three filters; from a threshold of two on
  a single clinician licensed in the state is returned whatever else is asked.
\<close>

lemma apply_filters_no_early_return:
  assumes "MIN_RESULTS \<le> 1" and "state filters \<noteq> []"
    and "c \<in> set (apply_filters_optimized MIN_RESULTS clinicians filters)"
  shows "passes_hard_filters filters c"
proof -
  have short: "\<And>xs :: clinician list. length xs < MIN_RESULTS \<Longrightarrow> xs = []"
    using assms(1) by (cases MIN_RESULTS) auto
  let ?s = "filter_by_state clinicians (state filters)"
  let ?t = "filter_by_appointment_type ?s (appointment_type filters)"
  from assms(2,3) have "c \<in> set (filter_accepting_patients ?t)"
    using short [of ?s] short [of ?t]
    by (auto simp: apply_filters_optimized_def remaining_filters_def Let_def split: if_splits)
  then show ?thesis
    by (auto simp: passes_hard_filters_def filter_by_state_def filter_by_appointment_type_def
        filter_accepting_patients_def)
qed

lemma early_return_from_two:
  assumes "2 \<le> MIN_RESULTS" and "state filters \<noteq> []"
    and "state filters \<in> set (license_states c)"
  shows "apply_filters_optimized MIN_RESULTS [c] filters = [c]"
  using assms by (simp add: apply_filters_optimized_def filter_by_state_def)





subsection \<open>Interaction matrix\<close>

lemma action_scores:
  "map_of ACTION_SCORES ''booked'' = Some 1.0"
  "map_of ACTION_SCORES ''contacted'' = Some 0.7"
  "map_of ACTION_SCORES ''clicked'' = Some 0.4"
  "map_of ACTION_SCORES ''viewed'' = Some 0.2"
  "map_of ACTION_SCORES ''ignored'' = Some 0.0"
  "map_of ACTION_SCORES ''rejected'' = Some (- 0.5)"
  by (simp_all add: ACTION_SCORES_def)

lemma matrix_step_existing:
  "interaction_to_score i = Inr s \<Longrightarrow>
   m (interaction_user_id i) (interaction_clinician_id i) = Some old \<Longrightarrow>
   matrix_step m i =
     Inr (m(interaction_user_id i :=
            (m (interaction_user_id i))(interaction_clinician_id i \<mapsto> max old s)))"
  by (simp add: matrix_step_def lookup_or_raise_def Let_def)

text \<open>The first turn of the loop already raises, whatever the interactions are.\<close>

lemma build_matrix_raises:
  "all_interactions \<noteq> [] \<Longrightarrow> build_user_item_matrix all_interactions = Inl KeyError"
proof -
  assume "all_interactions \<noteq> []"
  then obtain i rest where "all_interactions = i # rest" by (cases all_interactions) auto
  moreover have "matrix_step (\<lambda>_. Map.empty) i = Inl KeyError"
    by (simp add: matrix_step_def lookup_or_raise_def interaction_to_score_def
        split: option.splits)
  ultimately show ?thesis by (simp add: build_user_item_matrix_def)
qed

text \<open>
  C5: \<open>build_user_item_matrix\<close> on the interactions viewed, booked, ignored of one user
  with one clinician raises KeyError at the first of them: the user's dictionary is
  a plain one and holds no entry for the clinician yet when the maximum reads it.
\<close>

theorem matrix_first_interaction_raises:
  "build_user_item_matrix
     [\<lparr>interaction_user_id = ''u1'', interaction_clinician_id = ''c1'',
       interaction_action = ''viewed''\<rparr>,
      \<lparr>interaction_user_id = ''u1'', interaction_clinician_id = ''c1'',
       interaction_action = ''booked''\<rparr>,
      \<lparr>interaction_user_id = ''u1'', interaction_clinician_id = ''c1'',
       interaction_action = ''ignored''\<rparr>] = Inl KeyError"
  by (simp add: build_user_item_matrix_def matrix_step_def interaction_to_score_def
      lookup_or_raise_def ACTION_SCORES_def)

subsection \<open>Collaborative prediction\<close>

lemma collect_scores_entries:
  "collect_scores m cid sims scores = scores @ entries_for m sims cid"
  by (induction sims arbitrary: scores)
     (simp_all add: entries_for_def split: option.splits)

lemma mean_nonempty: "xs \<noteq> [] \<Longrightarrow> mean xs = Inr (sum_list xs / real (length xs))"
  by (simp add: mean_def py_div_def)

lemma predict_loop_result:
  "predict_loop m sims cands predictions =
     Inr (\<lambda>cid. if cid \<in> set cands then Some (prediction_for m sims cid) else predictions cid)"
proof (induction cands arbitrary: predictions)
  case Nil
  then show ?case by simp
next
  case (Cons c cands)
  have step: "(if entries_for m sims c \<noteq> [] then mean (entries_for m sims c) else Inr 0.5)
      = Inr (prediction_for m sims c)"
    by (simp add: prediction_for_def mean_nonempty)
  show ?case
    by (simp add: collect_scores_entries step Cons.IH fun_eq_iff)
qed

lemma entries_for_empty_iff:
  "entries_for m sims cid = [] \<longleftrightarrow> (\<forall>su\<in>set sims. m su cid = None)"
  by (induction sims) (auto simp: entries_for_def split: option.splits)

text \<open>
  C6: \<open>predict_scores\<close> returns a prediction for exactly the candidates; for each it
  is the mean of the matrix entries that the similar users hold for that clinician,
  and exactly 0.5 when no similar user holds one, in particular when there is no
  similar user at all.
\<close>

theorem predict_scores_mean:
  "\<exists>predictions. predict_scores find_similar_users m u candidates = Inr predictions
     \<and> dom predictions = set candidates
     \<and> (\<forall>cid\<in>set candidates.
           predictions cid =
             Some (let entries = entries_for m (find_similar_users u) cid
                   in if entries = [] then 0.5 else sum_list entries / real (length entries))
           \<and> ((\<forall>su\<in>set (find_similar_users u). m su cid = None) \<longrightarrow> predictions cid = Some 0.5)
           \<and> (find_similar_users u = [] \<longrightarrow> predictions cid = Some 0.5))"
proof -
  let ?sims = "find_similar_users u"
  let ?P = "\<lambda>cid. if cid \<in> set candidates then Some (prediction_for m ?sims cid) else None"
  have r: "predict_scores find_similar_users m u candidates = Inr ?P"
    by (simp add: predict_scores_def predict_loop_result)
  have d: "dom ?P = set candidates"
    by (auto simp: dom_def)
  have e: "\<And>cid. (\<forall>su\<in>set ?sims. m su cid = None) \<Longrightarrow> prediction_for m ?sims cid = 0.5"
    by (simp add: prediction_for_def entries_for_empty_iff)
  have "\<forall>cid\<in>set candidates.
           ?P cid =
             Some (let entries = entries_for m ?sims cid
                   in if entries = [] then 0.5 else sum_list entries / real (length entries))
           \<and> ((\<forall>su\<in>set ?sims. m su cid = None) \<longrightarrow> ?P cid = Some 0.5)
           \<and> (?sims = [] \<longrightarrow> ?P cid = Some 0.5)"
  proof
    fix cid assume c: "cid \<in> set candidates"
    have 1: "?P cid =
             Some (let entries = entries_for m ?sims cid
                   in if entries = [] then 0.5 else sum_list entries / real (length entries))"
      using c by (simp add: prediction_for_def Let_def)
    have 2: "(\<forall>su\<in>set ?sims. m su cid = None) \<longrightarrow> ?P cid = Some 0.5"
      using c e by simp
    have 3: "?sims = [] \<longrightarrow> ?P cid = Some 0.5"
    proof
      assume "?sims = []"
      then have "\<forall>su\<in>set ?sims. m su cid = None" by simp
      then have "prediction_for m ?sims cid = 0.5" by (rule e)
      with c show "?P cid = Some 0.5" by simp
    qed
    from 1 2 3 show "?P cid =
             Some (let entries = entries_for m ?sims cid
                   in if entries = [] then 0.5 else sum_list entries / real (length entries))
           \<and> ((\<forall>su\<in>set ?sims. m su cid = None) \<longrightarrow> ?P cid = Some 0.5)
           \<and> (?sims = [] \<longrightarrow> ?P cid = Some 0.5)"
      by blast
  qed
  with r d show ?thesis by blast
qed

text \<open>
  Three similar users, two of them with entries: the candidate c1 gets the mean 0.7
  of 1.0 and 0.4, c2 gets 0.2, and c3, which no similar user holds, gets 0.5. A user
  without similar users gets 0.5 for every candidate.
\<close>

theorem predict_scores_mean_witness:
  "(let m = (\<lambda>_. Map.empty)(''u2'' := [''c1'' \<mapsto> 1.0, ''c2'' \<mapsto> 0.2],
                               ''u3'' := [''c1'' \<mapsto> 0.4]);
        similar = (\<lambda>u. if u = ''u1'' then [''u2'', ''u3'', ''u4''] else [])
    in ''c1'' \<in> set [''c1'', ''c2'', ''c3'']
       \<and> (\<exists>predictions.
             predict_scores similar m ''u1'' [''c1'', ''c2'', ''c3''] = Inr predictions
             \<and> predictions ''c1'' = Some 0.7 \<and> predictions ''c2'' = Some 0.2
             \<and> predictions ''c3'' = Some 0.5)
       \<and> (\<exists>predictions.
             predict_scores similar m ''u9'' [''c1'', ''c2'', ''c3''] = Inr predictions
             \<and> predictions ''c1'' = Some 0.5 \<and> predictions ''c2'' = Some 0.5
             \<and> predictions ''c3'' = Some 0.5))"
proof -
  let ?m = "(\<lambda>_. Map.empty)(''u2'' := [''c1'' \<mapsto> 1.0, ''c2'' \<mapsto> 0.2],
                               ''u3'' := [''c1'' \<mapsto> (0.4::real)])"
  let ?similar = "\<lambda>u. if u = ''u1'' then [''u2'', ''u3'', ''u4''] else []"
  let ?cands = "[''c1'', ''c2'', ''c3'']"
  have e: "entries_for ?m [''u2'', ''u3'', ''u4''] ''c1'' = [1.0, 0.4]"
    "entries_for ?m [''u2'', ''u3'', ''u4''] ''c2'' = [0.2]"
    "entries_for ?m [''u2'', ''u3'', ''u4''] ''c3'' = []"
    by (simp_all add: entries_for_def)
  from predict_scores_mean [of ?similar ?m "''u1''" ?cands]
  obtain P where P: "predict_scores ?similar ?m ''u1'' ?cands = Inr P"
    and PA: "\<forall>cid\<in>set ?cands.
           P cid = Some (let entries = entries_for ?m (?similar ''u1'') cid
                         in if entries = [] then 0.5 else sum_list entries / real (length entries))"
    by blast
  from PA e have "P ''c1'' = Some 0.7" "P ''c2'' = Some 0.2" "P ''c3'' = Some 0.5"
    by (simp_all add: Let_def)
  with P have 1: "\<exists>predictions.
             predict_scores ?similar ?m ''u1'' ?cands = Inr predictions
             \<and> predictions ''c1'' = Some 0.7 \<and> predictions ''c2'' = Some 0.2
             \<and> predictions ''c3'' = Some 0.5"
    by blast
  from predict_scores_mean [of ?similar ?m "''u9''" ?cands]
  obtain Q where Q: "predict_scores ?similar ?m ''u9'' ?cands = Inr Q"
    and QA: "\<forall>cid\<in>set ?cands. ?similar ''u9'' = [] \<longrightarrow> Q cid = Some 0.5"
    by blast
  from QA have "Q ''c1'' = Some 0.5" "Q ''c2'' = Some 0.5" "Q ''c3'' = Some 0.5"
    by simp_all
  with Q have 2: "\<exists>predictions.
             predict_scores ?similar ?m ''u9'' ?cands = Inr predictions
             \<and> predictions ''c1'' = Some 0.5 \<and> predictions ''c2'' = Some 0.5
             \<and> predictions ''c3'' = Some 0.5"
    by blast
  from 1 2 show ?thesis by (simp add: Let_def)
qed

subsection \<open>Range of the match score\<close>

text \<open>
  The factor scores the scoring functions return lie in [0,1]; the availability score
  does when the supplied base score does.
\<close>

lemma score_availability_unit:
  assumes "0 \<le> availability_score c" and "availability_score c \<le> 1"
  shows "0 \<le> score_availability c u \<and> score_availability c u \<le> 1"
  using assms by (simp add: score_availability_def Let_def)

lemma score_specialties_basic_unit:
  assumes "score_specialties_basic c u = Inr x"
  shows "0 \<le> x \<and> x \<le> 1"
proof (cases "set (clinical_needs u) = {}")
  case True
  with assms show ?thesis by (simp add: score_specialties_basic_def)
next
  case False
  let ?needs = "set (clinical_needs u)"
  have "card (?needs \<inter> set (specialties c)) \<le> card ?needs"
    by (simp add: card_mono)
  moreover have "0 < card ?needs"
    using False by (simp add: card_gt_0_iff)
  moreover have "x = real (card (?needs \<inter> set (specialties c))) / real (card ?needs)"
    using assms False by (simp add: score_specialties_basic_def Let_def py_div_def)
  ultimately show ?thesis by simp
qed

lemma score_load_balance_unit:
  "score_load_balance c = Inr x \<Longrightarrow> 0 \<le> x \<and> x \<le> 1"
  by (auto simp: score_load_balance_def split: sum.splits if_splits)

lemma score_load_balance_overloaded:
  "current_patients c = 9 \<Longrightarrow> max_capacity c = 10 \<Longrightarrow>
   load_ratio c = Inr 0.9 \<and> score_load_balance c = Inr 0.3
   \<and> overload_penalty 0.9 s = s * 0.7"
  by (simp add: score_load_balance_def load_ratio_def py_div_def overload_penalty_def)

lemma content_score_unit:
  assumes "w = WEIGHTS_URGENT \<or> w = WEIGHTS_FLEXIBLE" and "unit_factors f"
  shows "0 \<le> calculate_content_score w f \<and> calculate_content_score w f \<le> 1"
  using assms
  by (auto simp: calculate_content_score_def unit_factors_def
      WEIGHTS_URGENT_def WEIGHTS_FLEXIBLE_def)


lemma clamp01_inside: "0 \<le> x \<Longrightarrow> x \<le> 1 \<Longrightarrow> clamp01 x = x"
  by (simp add: clamp01_def)

text \<open>
  A diversity factor in [0,1] keeps a score of [0,1] in [0,1], so the final clamp
  changes nothing there.
\<close>

lemma diversity_clamp_idle:
  assumes "0 \<le> s" "s \<le> 1" "0 \<le> d" "d \<le> 1"
  shows "clamp01 (s * d) = s * d"
proof -
  have "0 \<le> s * d" using assms by simp
  moreover have "s * d \<le> 1" using assms by (simp add: mult_le_one)
  ultimately show ?thesis by (rule clamp01_inside)
qed


subsection \<open>Diversity re-rank\<close>










end
